theory Spec2Isabelle
  imports Main "HOL-Library.AList" "HOL-Library.Word"
begin

section \<open>Dynamically typed values\<close>

text \<open>
  The filters of the client are Go values of type \<^verbatim>\<open>map[string]interface{}\<close>, and so are the
  query documents it emits. \<open>gval\<close> has one constructor for each dynamic type that the code under
  \<^verbatim>\<open>client_query.go\<close> tells apart with a type assertion or builds in a literal:
  \<open>VList\<close> is \<^verbatim>\<open>[]interface{}\<close>, \<open>VStrs\<close> is \<^verbatim>\<open>[]string\<close>, \<open>VMap\<close> is
  \<^verbatim>\<open>map[string]interface{}\<close>, \<open>VFilter\<close> is the named type \<^verbatim>\<open>Filter\<close> and \<open>VMaps\<close> is
  \<^verbatim>\<open>[]map[string]interface{}\<close>. A \<^verbatim>\<open>float32\<close> is carried as its 32 bits; no arithmetic is done
  on it.

  A Go map is an association list with pairwise distinct keys. \<open>map_of\<close> is the lookup
  \<^verbatim>\<open>v, ok := m[k]\<close>; a \<^verbatim>\<open>range\<close> loop over the map visits the entries in the order of the list,
  which stands for whatever order the Go runtime picks.
\<close>

type_synonym float32 = "32 word"

datatype gval =
    VNil
  | VStr string
  | VInt int
  | VBool bool
  | VF32 float32
  | VList "gval list"
  | VStrs "string list"
  | VMap "(string \<times> gval) list"
  | VFilter "(string \<times> gval) list"
  | VMaps "(string \<times> gval) list list"

type_synonym gmap = "(string \<times> gval) list"

text \<open>A value of type \<^verbatim>\<open>Filter\<close> held in a struct field or passed as an argument may be the nil
  map (\<open>None\<close>); \<^verbatim>\<open>len\<close> of the nil map is 0 and every lookup in it misses.\<close>

type_synonym Filter = "gmap option"

definition flen :: "Filter \<Rightarrow> nat" where
  "flen f = (case f of None \<Rightarrow> 0 | Some m \<Rightarrow> length m)"

definition fget :: "Filter \<Rightarrow> string \<Rightarrow> gval option" where
  "fget f k = (case f of None \<Rightarrow> None | Some m \<Rightarrow> map_of m k)"

definition entries :: "Filter \<Rightarrow> gmap" where
  "entries f = (case f of None \<Rightarrow> [] | Some m \<Rightarrow> m)"

text \<open>\<^verbatim>\<open>strings.Join\<close>.\<close>

fun strings_Join :: "string list \<Rightarrow> string \<Rightarrow> string" where
  "strings_Join [] sep = []"
| "strings_Join [x] sep = x"
| "strings_Join (x # y # ys) sep = x @ sep @ strings_Join (y # ys) sep"

section \<open>Errors\<close>

text \<open>\<open>Errorf\<close> is \<^verbatim>\<open>fmt.Errorf\<close> without \<^verbatim>\<open>%w\<close>, \<open>Wrapf msg e\<close> is
  \<^verbatim>\<open>fmt.Errorf("msg: %w", e)\<close>, \<open>External\<close> is an error of a collaborator (the embedding
  function, the filter builder). \<open>InvalidFilter\<close> is the error of the SQL predicate compiler
  in the taxonomy of the specification; nothing in \<^verbatim>\<open>client_query.go\<close> raises it.\<close>

datatype error =
    ErrEmbeddingFunctionRequired
  | ErrInvalidParameter
  | Errorf string
  | Wrapf string error
  | External string
  | InvalidFilter

fun errors_Is :: "error \<Rightarrow> error \<Rightarrow> bool" where
  "errors_Is (Wrapf msg e) target = (Wrapf msg e = target \<or> errors_Is e target)"
| "errors_Is e target = (e = target)"

section \<open>The search-descriptor compiler (\<^verbatim>\<open>client_query.go\<close>)\<close>

subsection \<open>Field conditions\<close>

definition fieldNameOf :: "string \<Rightarrow> string" where
  "fieldNameOf key = ''(JSON_EXTRACT(metadata, '' @ [CHR 0x27] @ ''$.'' @ key @ [CHR 0x27] @ ''))''"

text \<open>The body of the \<^verbatim>\<open>switch op\<close> inside the loop over one operator map. The loop state is
  \<^verbatim>\<open>result\<close>, \<^verbatim>\<open>rangeConditions\<close> and \<^verbatim>\<open>termValue\<close>.\<close>

fun applyOp :: "string \<Rightarrow> gmap list \<times> gmap \<times> gval \<Rightarrow> string \<times> gval \<Rightarrow> gmap list \<times> gmap \<times> gval" where
  "applyOp fieldName (result, rangeConditions, termValue) (op, opValue) =
     (if op = ''$eq'' then (result, rangeConditions, opValue)
      else if op = ''$ne'' then
        (result @ [[(''bool'', VMap [(''must_not'', VMaps [[(''term'', VMap [(fieldName, opValue)])]])])]],
         rangeConditions, termValue)
      else if op = ''$lt'' then (result, AList.update ''lt'' opValue rangeConditions, termValue)
      else if op = ''$lte'' then (result, AList.update ''lte'' opValue rangeConditions, termValue)
      else if op = ''$gt'' then (result, AList.update ''gt'' opValue rangeConditions, termValue)
      else if op = ''$gte'' then (result, AList.update ''gte'' opValue rangeConditions, termValue)
      else if op = ''$in'' then
        (case opValue of
           VList inValues \<Rightarrow>
             (let inConditions = map (\<lambda>val. [(''term'', VMap [(fieldName, val)])]) inValues
              in if length inConditions > 0
                 then (result @ [[(''bool'', VMap [(''should'', VMaps inConditions)])]],
                       rangeConditions, termValue)
                 else (result, rangeConditions, termValue))
         | _ \<Rightarrow> (result, rangeConditions, termValue))
      else if op = ''$nin'' then
        (case opValue of
           VList ninValues \<Rightarrow>
             (let ninConditions = map (\<lambda>val. [(''term'', VMap [(fieldName, val)])]) ninValues
              in if length ninConditions > 0
                 then (result @ [[(''bool'', VMap [(''must_not'', VMaps ninConditions)])]],
                       rangeConditions, termValue)
                 else (result, rangeConditions, termValue))
         | _ \<Rightarrow> (result, rangeConditions, termValue))
      else (result, rangeConditions, termValue))"

text \<open>The branch \<^verbatim>\<open>if isValueMap\<close>: the loop over the operator map, then the single
  \<^verbatim>\<open>range\<close> or \<^verbatim>\<open>term\<close> object for the field.\<close>

definition valueMapConditions :: "string \<Rightarrow> gmap list \<Rightarrow> gmap \<Rightarrow> gmap list" where
  "valueMapConditions fieldName result valueMap =
     (case foldl (applyOp fieldName) (result, [], VNil) valueMap of
        (result', rangeConditions, termValue) \<Rightarrow>
          if length rangeConditions > 0
          then result' @ [[(''range'', VMap [(fieldName, VMap rangeConditions)])]]
          else if termValue \<noteq> VNil
          then result' @ [[(''term'', VMap [(fieldName, termValue)])]]
          else result')"

text \<open>One round of the loop \<^verbatim>\<open>for key, value := range condition\<close>.\<close>

fun fieldCondition :: "gmap list \<Rightarrow> string \<times> gval \<Rightarrow> gmap list" where
  "fieldCondition result (key, val) =
     (if key = ''$and'' \<or> key = ''$or'' \<or> key = ''$not'' then result
      else
        (let fieldName = fieldNameOf key
         in case val of
              VMap m \<Rightarrow> valueMapConditions fieldName result m
            | VFilter f \<Rightarrow> valueMapConditions fieldName result f
            | _ \<Rightarrow> result @ [[(''term'', VMap [(fieldName, val)])]]))"

subsection \<open>Logical operators\<close>

function buildMetadataFilterConditions :: "gmap \<Rightarrow> gmap list" where
  "buildMetadataFilterConditions condition =
     (if length condition = 0 then []
      else
        (case map_of condition ''$and'' of
           Some andConditions \<Rightarrow>
             (case andConditions of
                VList conditions \<Rightarrow>
                  (let mustConditions =
                         concat (map (\<lambda>subCond. case subCond of
                                         VMap subCondMap \<Rightarrow> buildMetadataFilterConditions subCondMap
                                       | _ \<Rightarrow> []) conditions)
                   in if length mustConditions > 0
                      then [[(''bool'', VMap [(''must'', VMaps mustConditions)])]]
                      else [])
              | _ \<Rightarrow> [])
         | None \<Rightarrow>
        (case map_of condition ''$or'' of
           Some orConditions \<Rightarrow>
             (case orConditions of
                VList conditions \<Rightarrow>
                  (let shouldConditions =
                         concat (map (\<lambda>subCond. case subCond of
                                         VMap subCondMap \<Rightarrow> buildMetadataFilterConditions subCondMap
                                       | _ \<Rightarrow> []) conditions)
                   in if length shouldConditions > 0
                      then [[(''bool'', VMap [(''should'', VMaps shouldConditions)])]]
                      else [])
              | _ \<Rightarrow> [])
         | None \<Rightarrow>
        (case map_of condition ''$not'' of
           Some notCondition \<Rightarrow>
             (case notCondition of
                VMap notCondMap \<Rightarrow>
                  (let notFilters = buildMetadataFilterConditions notCondMap
                   in if length notFilters > 0
                      then [[(''bool'', VMap [(''must_not'', VMaps notFilters)])]]
                      else [])
              | _ \<Rightarrow> [])
         | None \<Rightarrow> foldl fieldCondition [] condition))))"
  by pat_completeness auto
termination
proof (relation "measure (size_list (size_prod (\<lambda>_. 0) size))")
  show "wf (measure (size_list (size_prod (\<lambda>_. 0) size)))" by simp
next
  have look: "size v < size_list (size_prod (\<lambda>_. 0) size) xs"
    if "map_of xs k = Some v" for xs :: gmap and k v
    using that by (induction xs) (auto split: if_splits)
  fix condition :: gmap and andConditions conditions subCond subCondMap
  assume "map_of condition ''$and'' = Some andConditions" "andConditions = VList conditions"
    "subCond \<in> set conditions" "subCond = VMap subCondMap"
  then have "size (VMap subCondMap) \<le> size_list size conditions"
    and "size (VList conditions) < size_list (size_prod (\<lambda>_. 0) size) condition"
    using look[of condition "''$and''" andConditions]
      size_list_estimation'[of subCond conditions "size (VMap subCondMap)" size]
    by auto
  then show "(subCondMap, condition) \<in> measure (size_list (size_prod (\<lambda>_. 0) size))"
    by simp
next
  have look: "size v < size_list (size_prod (\<lambda>_. 0) size) xs"
    if "map_of xs k = Some v" for xs :: gmap and k v
    using that by (induction xs) (auto split: if_splits)
  fix condition :: gmap and orConditions conditions subCond subCondMap
  assume "map_of condition ''$or'' = Some orConditions" "orConditions = VList conditions"
    "subCond \<in> set conditions" "subCond = VMap subCondMap"
  then have "size (VMap subCondMap) \<le> size_list size conditions"
    and "size (VList conditions) < size_list (size_prod (\<lambda>_. 0) size) condition"
    using look[of condition "''$or''" orConditions]
      size_list_estimation'[of subCond conditions "size (VMap subCondMap)" size]
    by auto
  then show "(subCondMap, condition) \<in> measure (size_list (size_prod (\<lambda>_. 0) size))"
    by simp
next
  have look: "size v < size_list (size_prod (\<lambda>_. 0) size) xs"
    if "map_of xs k = Some v" for xs :: gmap and k v
    using that by (induction xs) (auto split: if_splits)
  fix condition :: gmap and notCondition notCondMap
  assume "map_of condition ''$not'' = Some notCondition" "notCondition = VMap notCondMap"
  then show "(notCondMap, condition) \<in> measure (size_list (size_prod (\<lambda>_. 0) size))"
    using look[of condition "''$not''" notCondition] by simp
qed

declare buildMetadataFilterConditions.simps [simp del]

definition buildMetadataFilterForSearchParm :: "Filter \<Rightarrow> gmap list" where
  "buildMetadataFilterForSearchParm wher =
     (if flen wher = 0 then [] else buildMetadataFilterConditions (entries wher))"

subsection \<open>Document filters\<close>

text \<open>The loop that collects \<^verbatim>\<open>containsQueries\<close>; the source writes it out twice, for
  \<^verbatim>\<open>$and\<close> and for \<^verbatim>\<open>$or\<close>.\<close>

definition containsQueries :: "gval list \<Rightarrow> string list" where
  "containsQueries conditions =
     concat (map (\<lambda>cond. case cond of
                    VMap condMap \<Rightarrow>
                      (case map_of condMap ''$contains'' of
                         Some (VStr containsStr) \<Rightarrow> [containsStr]
                       | _ \<Rightarrow> [])
                  | _ \<Rightarrow> []) conditions)"

definition containsClause :: "Filter \<Rightarrow> string \<Rightarrow> string \<Rightarrow> gmap option" where
  "containsClause whereDocument key sep =
     (case fget whereDocument key of
        Some (VList conditions) \<Rightarrow>
          (if length (containsQueries conditions) > 0
           then Some [(''query_string'',
                       VMap [(''fields'', VStrs [''document'']),
                             (''query'', VStr (strings_Join (containsQueries conditions) sep))])]
           else None)
      | _ \<Rightarrow> None)"

definition buildDocumentQuery :: "Filter \<Rightarrow> gmap option" where
  "buildDocumentQuery whereDocument =
     (if flen whereDocument = 0 then None
      else
        (case fget whereDocument ''$contains'' of
           Some contains \<Rightarrow>
             Some [(''query_string'',
                    VMap [(''fields'', VStrs [''document'']), (''query'', contains)])]
         | None \<Rightarrow>
             (case containsClause whereDocument ''$and'' '' '' of
                Some q \<Rightarrow> Some q
              | None \<Rightarrow> containsClause whereDocument ''$or'' '' OR '')))"

subsection \<open>The request builder\<close>

record HybridSearchQuery =
  query_WhereDocument :: Filter
  query_Where :: Filter
  query_NResults :: int

record HybridSearchKNN =
  knn_QueryTexts :: "string list"
  knn_QueryEmbeddings :: "float32 list list"
  knn_Where :: Filter
  knn_NResults :: int

record RRFConfig =
  K :: int

record HybridSearchRank =
  RRF :: "RRFConfig option"

text \<open>The embedding collaborator \<^verbatim>\<open>Embed(texts)\<close>; \<open>None\<close> is the nil interface.\<close>

type_synonym EmbeddingFunc = "string list \<Rightarrow> error + float32 list list"

definition buildQueryExpression :: "HybridSearchQuery \<Rightarrow> gmap option" where
  "buildQueryExpression query =
     (let whereDocument = query_WhereDocument query;
          wher = query_Where query
      in case (if flen whereDocument = 0 \<and> flen wher > 0
               then (let filterConditions = buildMetadataFilterForSearchParm wher
                     in if length filterConditions > 0
                        then (if length filterConditions = 1
                              then (let filterCond = filterConditions ! 0
                                    in if map_of filterCond ''range'' \<noteq> None then Some filterCond
                                       else if map_of filterCond ''term'' \<noteq> None then Some filterCond
                                       else Some [(''bool'', VMap [(''filter'', VMaps filterConditions)])])
                              else Some [(''bool'', VMap [(''filter'', VMaps filterConditions)])])
                        else None)
               else None) of
           Some scalarQuery \<Rightarrow> Some scalarQuery
         | None \<Rightarrow>
             (if flen whereDocument > 0
              then (case buildDocumentQuery whereDocument of
                      Some docQuery \<Rightarrow>
                        (let filterConditions = buildMetadataFilterForSearchParm wher
                         in if length filterConditions > 0
                            then Some [(''bool'', VMap [(''must'', VList [VMap docQuery]),
                                                        (''filter'', VMaps filterConditions)])]
                            else Some docQuery)
                    | None \<Rightarrow> None)
              else None))"

text \<open>The first half of \<^verbatim>\<open>buildKNNExpression\<close>: the query vector, or the error.\<close>

definition knnQueryVector :: "HybridSearchKNN \<Rightarrow> EmbeddingFunc option \<Rightarrow> error + float32 list" where
  "knnQueryVector knn embFunc =
     (if length (knn_QueryEmbeddings knn) > 0 then Inr (knn_QueryEmbeddings knn ! 0)
      else if length (knn_QueryTexts knn) > 0 then
        (case embFunc of
           None \<Rightarrow>
             Inl (Wrapf ''knn.query_texts provided but no embedding function''
                    ErrEmbeddingFunctionRequired)
         | Some ef \<Rightarrow>
             (case ef (knn_QueryTexts knn) of
                Inl err \<Rightarrow> Inl (Wrapf ''failed to generate embeddings from query_texts'' err)
              | Inr embeddings \<Rightarrow> Inr (if length embeddings > 0 then embeddings ! 0 else [])))
      else Inl (Errorf ''knn requires either query_embeddings or query_texts''))"

definition buildKNNExpression :: "HybridSearchKNN \<Rightarrow> EmbeddingFunc option \<Rightarrow> error + gmap option" where
  "buildKNNExpression knn embFunc =
     (case knnQueryVector knn embFunc of
        Inl err \<Rightarrow> Inl err
      | Inr queryVector \<Rightarrow>
          if length queryVector = 0 then Inr None
          else
            (let queryVectorInterface = map VF32 queryVector;
                 k = (if knn_NResults knn \<le> 0 then 10 else knn_NResults knn);
                 knnExpr = [(''field'', VStr ''embedding''), (''k'', VInt k),
                            (''query_vector'', VList queryVectorInterface)];
                 filterConditions = buildMetadataFilterForSearchParm (knn_Where knn)
             in Inr (Some (if length filterConditions > 0
                           then AList.update ''filter'' (VMaps filterConditions) knnExpr
                           else knnExpr))))"

definition rankSection :: "HybridSearchRank option \<Rightarrow> gmap \<Rightarrow> gmap" where
  "rankSection rank searchParm =
     (case rank of
        None \<Rightarrow> searchParm
      | Some r \<Rightarrow>
          (let rankExpr =
                 (case RRF r of
                    None \<Rightarrow> []
                  | Some rrf \<Rightarrow>
                      [(''rrf'', VMap (if K rrf > 0 then [(''rank_constant'', VInt (K rrf))] else []))])
           in if length rankExpr > 0 then AList.update ''rank'' (VMap rankExpr) searchParm
              else searchParm))"

definition buildSearchParm ::
  "HybridSearchQuery option \<Rightarrow> HybridSearchKNN option \<Rightarrow> HybridSearchRank option \<Rightarrow> int \<Rightarrow>
   EmbeddingFunc option \<Rightarrow> error + gmap" where
  "buildSearchParm query knn rank nResults embFunc =
     (let searchParm0 =
            (case query of
               None \<Rightarrow> []
             | Some q \<Rightarrow>
                 (case buildQueryExpression q of
                    None \<Rightarrow> []
                  | Some queryExpr \<Rightarrow> AList.update ''query'' (VMap queryExpr) []))
      in case (case knn of
                 None \<Rightarrow> Inr searchParm0
               | Some kn \<Rightarrow>
                   (case buildKNNExpression kn embFunc of
                      Inl err \<Rightarrow> Inl err
                    | Inr None \<Rightarrow> Inr searchParm0
                    | Inr (Some knnExpr) \<Rightarrow> Inr (AList.update ''knn'' (VMap knnExpr) searchParm0))) of
           Inl err \<Rightarrow> Inl err
         | Inr searchParm1 \<Rightarrow>
             Inr (rankSection rank
                    (if nResults > 0 then AList.update ''size'' (VInt nResults) searchParm1
                     else searchParm1)))"

text \<open>\<^verbatim>\<open>collectionHybridSearch\<close> up to the point where the request is serialised and sent:
  the request it transmits, or the error it returns before anything is sent.\<close>

definition collectionHybridSearch_request ::
  "HybridSearchQuery option \<Rightarrow> HybridSearchKNN option \<Rightarrow> HybridSearchRank option \<Rightarrow> int \<Rightarrow>
   EmbeddingFunc option \<Rightarrow> error + gmap" where
  "collectionHybridSearch_request query knn rank nResults embFunc =
     (case buildSearchParm query knn rank nResults embFunc of
        Inl err \<Rightarrow> Inl (Wrapf ''failed to build search_parm'' err)
      | Inr searchParm \<Rightarrow> Inr searchParm)"

section \<open>The Get statement (\<^verbatim>\<open>collectionGet\<close>)\<close>




record GetOptions =
  get_Where :: Filter
  get_WhereDocument :: Filter
  Limit :: int
  Offset :: int
  Include :: "string list"









definition WithGetWhere :: "Filter \<Rightarrow> GetOptions \<Rightarrow> GetOptions" where
  "WithGetWhere flt options = options\<lparr>get_Where := flt\<rparr>"

definition WithGetWhereDocument :: "Filter \<Rightarrow> GetOptions \<Rightarrow> GetOptions" where
  "WithGetWhereDocument flt options = options\<lparr>get_WhereDocument := flt\<rparr>"


definition WithOffset :: "int \<Rightarrow> GetOptions \<Rightarrow> GetOptions" where
  "WithOffset off options = options\<lparr>Offset := off\<rparr>"


section \<open>The SQL predicate compiler\<close>













subsection \<open>What the order of the arguments means\<close>






section \<open>Reading a compiled filter\<close>

text \<open>The \<^verbatim>\<open>range\<close> objects for one field among a list of emitted conditions: the conditions
  that have a \<^verbatim>\<open>range\<close> key whose object has an entry for the field.\<close>

definition rangeObjectsFor :: "string \<Rightarrow> gmap list \<Rightarrow> gmap list" where
  "rangeObjectsFor fieldName clauses =
     filter (\<lambda>clause. case map_of clause ''range'' of
                         Some (VMap r) \<Rightarrow> map_of r fieldName \<noteq> None
                       | _ \<Rightarrow> False) clauses"

section \<open>Binding arguments to placeholders\<close>













section \<open>The conditions of the Get statement\<close>







section \<open>Claims\<close>



text \<open>
  C3, as stated: the metadata filter \<^verbatim>\<open>{"$or":[{"score":{"$gte":90}},{"tag":"ml"}]}\<close> compiles
  to the document whose \<^verbatim>\<open>range\<close> and \<^verbatim>\<open>term\<close> objects are keyed by the field names as given,
  \<^verbatim>\<open>score\<close> and \<^verbatim>\<open>tag\<close>. The compiler does not emit that document.
\<close>

theorem or_filter_field_names_counterexample:
  "buildMetadataFilterConditions
     [(''$or'', VList [VMap [(''score'', VMap [(''$gte'', VInt 90)])],
                       VMap [(''tag'', VStr ''ml'')]])] \<noteq>
   [[(''bool'', VMap [(''should'', VMaps
       [[(''range'', VMap [(''score'', VMap [(''gte'', VInt 90)])])],
        [(''term'', VMap [(''tag'', VStr ''ml'')])]])])]]"
  by (simp add: buildMetadataFilterConditions.simps valueMapConditions_def fieldNameOf_def)

text \<open>
  C3, amended: the filter compiles to exactly one document, a \<^verbatim>\<open>bool.should\<close> over the
  \<^verbatim>\<open>range\<close> object of \<^verbatim>\<open>score\<close> and the \<^verbatim>\<open>term\<close> object of \<^verbatim>\<open>tag\<close> in list order, in which
  each field is addressed by its JSON-extraction expression
  \<^verbatim>\<open>(JSON_EXTRACT(metadata, '$.score'))\<close> and \<^verbatim>\<open>(JSON_EXTRACT(metadata, '$.tag'))\<close>.
\<close>

theorem or_filter_compiles_to_should:
  "buildMetadataFilterConditions
     [(''$or'', VList [VMap [(''score'', VMap [(''$gte'', VInt 90)])],
                       VMap [(''tag'', VStr ''ml'')]])] =
   [[(''bool'', VMap [(''should'', VMaps
       [[(''range'', VMap [(fieldNameOf ''score'', VMap [(''gte'', VInt 90)])])],
        [(''term'', VMap [(fieldNameOf ''tag'', VStr ''ml'')])]])])]] \<and>
   fieldNameOf ''score'' =
     ''(JSON_EXTRACT(metadata, '' @ [CHR 0x27] @ ''$.score'' @ [CHR 0x27] @ ''))'' \<and>
   fieldNameOf ''tag'' =
     ''(JSON_EXTRACT(metadata, '' @ [CHR 0x27] @ ''$.tag'' @ [CHR 0x27] @ ''))''"
  by (simp add: buildMetadataFilterConditions.simps valueMapConditions_def fieldNameOf_def)

text \<open>
  C1, as stated: a document filter with \<^verbatim>\<open>$regex\<close> compiled for hybrid search fails with an
  \<^verbatim>\<open>UnsupportedInTarget\<close> error and is never silently dropped. A hybrid search whose document
  filter is \<^verbatim>\<open>{"$regex": ".*machine.*"}\<close> returns no error; its request holds the size alone.
\<close>

theorem regex_filter_counterexample:
  "collectionHybridSearch_request
     (Some \<lparr>query_WhereDocument = Some [(''$regex'', VStr ''.*machine.*'')], query_Where = None,
            query_NResults = 5\<rparr>) None None 5 None = Inr [(''size'', VInt 5)]"
  by (simp add: collectionHybridSearch_request_def buildSearchParm_def buildQueryExpression_def
      buildDocumentQuery_def containsClause_def flen_def fget_def rankSection_def)

lemma buildDocumentQuery_no_contains:
  assumes "fget whereDocument ''$contains'' = None" "fget whereDocument ''$and'' = None"
    "fget whereDocument ''$or'' = None"
  shows "buildDocumentQuery whereDocument = None"
  using assms by (simp add: buildDocumentQuery_def containsClause_def)

text \<open>
  C1, amended: for every document filter that has a \<^verbatim>\<open>$regex\<close> key and none of the keys
  \<^verbatim>\<open>$contains\<close>, \<^verbatim>\<open>$and\<close>, \<^verbatim>\<open>$or\<close>, compilation for the hybrid-search path reports no error:
  \<^verbatim>\<open>buildDocumentQuery\<close> yields no clause, the query expression is absent whatever the metadata
  filter is, and a search without a knn part builds a request that has no query section.
\<close>

theorem regex_filter_yields_no_clause:
  assumes "fget whereDocument ''$regex'' = Some pattern"
    and "fget whereDocument ''$contains'' = None"
    and "fget whereDocument ''$and'' = None"
    and "fget whereDocument ''$or'' = None"
  shows "buildDocumentQuery whereDocument = None \<and>
         buildQueryExpression
           \<lparr>query_WhereDocument = whereDocument, query_Where = wher, query_NResults = n\<rparr> = None \<and>
         collectionHybridSearch_request
           (Some \<lparr>query_WhereDocument = whereDocument, query_Where = wher, query_NResults = n\<rparr>)
           None rank nResults embFunc =
         Inr (rankSection rank (if nResults > 0 then [(''size'', VInt nResults)] else []))"
proof -
  have d: "buildDocumentQuery whereDocument = None"
    using assms(2-4) by (rule buildDocumentQuery_no_contains)
  from assms(1) have l: "flen whereDocument > 0"
    by (cases whereDocument) (auto simp: fget_def flen_def)
  have q: "buildQueryExpression
           \<lparr>query_WhereDocument = whereDocument, query_Where = wher, query_NResults = n\<rparr> = None"
    using d l by (simp add: buildQueryExpression_def)
  show ?thesis
    using d q by (simp add: collectionHybridSearch_request_def buildSearchParm_def)
qed

theorem regex_filter_yields_no_clause_witness:
  "fget (Some [(''$regex'', VStr ''.*machine.*'')]) ''$regex'' = Some (VStr ''.*machine.*'') \<and>
   buildDocumentQuery (Some [(''$regex'', VStr ''.*machine.*'')]) = None \<and>
   collectionHybridSearch_request
     (Some \<lparr>query_WhereDocument = Some [(''$regex'', VStr ''.*machine.*'')], query_Where = None,
            query_NResults = 5\<rparr>) None None 5 None = Inr [(''size'', VInt 5)]"
  using regex_filter_yields_no_clause
    [of "Some [(''$regex'', VStr ''.*machine.*'')]" "VStr ''.*machine.*''" None 5 None 5 None]
  by (simp add: fget_def rankSection_def)

text \<open>
  C5. For every hybrid search call where \<^verbatim>\<open>knn.QueryTexts\<close> is non-empty,
  \<^verbatim>\<open>knn.QueryEmbeddings\<close> is absent and no embedding function is configured, the call fails
  with the \<^verbatim>\<open>ErrEmbeddingFunctionRequired\<close> error (wrapped, so that \<^verbatim>\<open>errors.Is\<close> finds it);
  no request is built.
\<close>

theorem query_texts_need_embedding_function:
  assumes "knn_QueryTexts knn \<noteq> []" and "knn_QueryEmbeddings knn = []"
  shows "buildKNNExpression knn None =
           Inl (Wrapf ''knn.query_texts provided but no embedding function''
                  ErrEmbeddingFunctionRequired) \<and>
         collectionHybridSearch_request query (Some knn) rank nResults None =
           Inl (Wrapf ''failed to build search_parm''
                  (Wrapf ''knn.query_texts provided but no embedding function''
                     ErrEmbeddingFunctionRequired)) \<and>
         errors_Is (Wrapf ''failed to build search_parm''
                  (Wrapf ''knn.query_texts provided but no embedding function''
                     ErrEmbeddingFunctionRequired)) ErrEmbeddingFunctionRequired"
  using assms
  by (simp add: collectionHybridSearch_request_def buildSearchParm_def buildKNNExpression_def
      knnQueryVector_def)

theorem query_texts_need_embedding_function_witness:
  "knn_QueryTexts \<lparr>knn_QueryTexts = [''x''], knn_QueryEmbeddings = [], knn_Where = None,
                    knn_NResults = 5\<rparr> \<noteq> [] \<and>
   collectionHybridSearch_request None
     (Some \<lparr>knn_QueryTexts = [''x''], knn_QueryEmbeddings = [], knn_Where = None, knn_NResults = 5\<rparr>)
     None 5 None =
     Inl (Wrapf ''failed to build search_parm''
            (Wrapf ''knn.query_texts provided but no embedding function''
               ErrEmbeddingFunctionRequired))"
  using query_texts_need_embedding_function
    [of "\<lparr>knn_QueryTexts = [''x''], knn_QueryEmbeddings = [], knn_Where = None, knn_NResults = 5\<rparr>"
        None None 5]
  by simp

text \<open>
  C8, as stated: every request assembled by the hybrid-search request builder contains at least
  one of the \<^verbatim>\<open>query\<close> and \<^verbatim>\<open>knn\<close> sections. A hybrid search with neither a query nor a knn
  part builds the request \<^verbatim>\<open>{"size": 5}\<close> and goes on to send it.
\<close>

theorem request_without_sections_counterexample:
  "collectionHybridSearch_request None None None 5 None = Inr [(''size'', VInt 5)] \<and>
   map_of [(''size'', VInt 5)] ''query'' = None \<and> map_of [(''size'', VInt 5)] ''knn'' = None"
  by (simp add: collectionHybridSearch_request_def buildSearchParm_def rankSection_def)

lemma map_of_rankSection:
  "k \<noteq> ''rank'' \<Longrightarrow> map_of (rankSection rank searchParm) k = map_of searchParm k"
  by (auto simp: rankSection_def Let_def update_conv' split: option.splits)

text \<open>
  C8, amended: a request assembled by the builder has the \<^verbatim>\<open>query\<close> section exactly when a
  query part is given and \<^verbatim>\<open>buildQueryExpression\<close> yields a clause for it, and the \<^verbatim>\<open>knn\<close>
  section exactly when a knn part is given and \<^verbatim>\<open>buildKNNExpression\<close> yields an expression for
  it; the sections are those clauses. The builder does not refuse a call for which neither
  holds.
\<close>

theorem request_sections:
  assumes "collectionHybridSearch_request query knn rank nResults embFunc = Inr searchParm"
  shows "map_of searchParm ''query'' =
           (case query of None \<Rightarrow> None | Some q \<Rightarrow> map_option VMap (buildQueryExpression q)) \<and>
         map_of searchParm ''knn'' =
           (case knn of
              None \<Rightarrow> None
            | Some kn \<Rightarrow>
                (case buildKNNExpression kn embFunc of
                   Inr (Some knnExpr) \<Rightarrow> Some (VMap knnExpr)
                 | _ \<Rightarrow> None))"
  using assms
  by (auto simp: collectionHybridSearch_request_def buildSearchParm_def Let_def map_of_rankSection
      update_conv' split: option.splits sum.splits if_splits)

theorem request_sections_witness:
  "collectionHybridSearch_request
     (Some \<lparr>query_WhereDocument = Some [(''$contains'', VStr ''machine learning'')],
            query_Where = None, query_NResults = 10\<rparr>)
     (Some \<lparr>knn_QueryTexts = [], knn_QueryEmbeddings = [[0x3F800000, 0x40000000, 0x40400000]],
            knn_Where = None, knn_NResults = 10\<rparr>)
     None 5 None =
   Inr [(''query'', VMap [(''query_string'', VMap [(''fields'', VStrs [''document'']),
                                                    (''query'', VStr ''machine learning'')])]),
        (''knn'', VMap [(''field'', VStr ''embedding''), (''k'', VInt 10),
                        (''query_vector'', VList [VF32 0x3F800000, VF32 0x40000000, VF32 0x40400000])]),
        (''size'', VInt 5)] \<and>
   map_of [(''query'', VMap [(''query_string'', VMap [(''fields'', VStrs [''document'']),
                                                    (''query'', VStr ''machine learning'')])]),
        (''knn'', VMap [(''field'', VStr ''embedding''), (''k'', VInt 10),
                        (''query_vector'', VList [VF32 0x3F800000, VF32 0x40000000, VF32 0x40400000])]),
        (''size'', VInt 5)] ''knn'' =
   Some (VMap [(''field'', VStr ''embedding''), (''k'', VInt 10),
               (''query_vector'', VList [VF32 0x3F800000, VF32 0x40000000, VF32 0x40400000])])"
  using request_sections
    [of "Some \<lparr>query_WhereDocument = Some [(''$contains'', VStr ''machine learning'')],
            query_Where = None, query_NResults = 10\<rparr>"
        "Some \<lparr>knn_QueryTexts = [], knn_QueryEmbeddings = [[0x3F800000, 0x40000000, 0x40400000]],
            knn_Where = None, knn_NResults = 10\<rparr>"
        None 5 None
        "[(''query'', VMap [(''query_string'', VMap [(''fields'', VStrs [''document'']),
                                                    (''query'', VStr ''machine learning'')])]),
        (''knn'', VMap [(''field'', VStr ''embedding''), (''k'', VInt 10),
                        (''query_vector'', VList [VF32 0x3F800000, VF32 0x40000000, VF32 0x40400000])]),
        (''size'', VInt 5)]"]
  by (simp add: collectionHybridSearch_request_def buildSearchParm_def buildQueryExpression_def
      buildDocumentQuery_def buildKNNExpression_def knnQueryVector_def
      buildMetadataFilterForSearchParm_def flen_def fget_def rankSection_def)






lemma buildMetadataFilterConditions_fields:
  assumes "condition \<noteq> []" "map_of condition ''$and'' = None" "map_of condition ''$or'' = None"
    "map_of condition ''$not'' = None"
  shows "buildMetadataFilterConditions condition = foldl fieldCondition [] condition"
  using assms by (subst buildMetadataFilterConditions.simps) simp



text \<open>
  C6, as stated: for every document filter whose top-level key is \<^verbatim>\<open>$and\<close> (or \<^verbatim>\<open>$or\<close>) over
  a list of \<^verbatim>\<open>$contains\<close> conditions the compiler emits exactly one \<^verbatim>\<open>query_string\<close> clause. For
  the empty list it emits none.
\<close>

theorem contains_list_counterexample:
  "buildDocumentQuery (Some [(''$and'', VList [])]) = None \<and>
   buildDocumentQuery (Some [(''$or'', VList [])]) = None"
  by (simp add: buildDocumentQuery_def containsClause_def containsQueries_def flen_def fget_def)

lemma containsQueries_contains:
  "containsQueries (map (\<lambda>s. VMap [(''$contains'', VStr s)]) ss) = ss"
  by (induction ss) (simp_all add: containsQueries_def)

text \<open>
  C6, amended: for every document filter whose only key is \<^verbatim>\<open>$and\<close> over a non-empty list of
  \<^verbatim>\<open>$contains\<close> conditions, each a \<^verbatim>\<open>map[string]interface{}\<close> with a string, the compiler emits
  exactly one \<^verbatim>\<open>query_string\<close> clause over the document field whose query text is the
  substrings joined by single spaces; for \<^verbatim>\<open>$or\<close> the substrings are joined by \<^verbatim>\<open> OR \<close>.
\<close>

theorem contains_terms_are_joined:
  assumes "ss \<noteq> []"
  shows "buildDocumentQuery (Some [(''$and'', VList (map (\<lambda>s. VMap [(''$contains'', VStr s)]) ss))]) =
           Some [(''query_string'',
                  VMap [(''fields'', VStrs [''document'']), (''query'', VStr (strings_Join ss '' ''))])] \<and>
         buildDocumentQuery (Some [(''$or'', VList (map (\<lambda>s. VMap [(''$contains'', VStr s)]) ss))]) =
           Some [(''query_string'',
                  VMap [(''fields'', VStrs [''document'']), (''query'', VStr (strings_Join ss '' OR ''))])]"
  using assms
  by (simp add: buildDocumentQuery_def containsClause_def containsQueries_contains flen_def fget_def)

theorem contains_terms_are_joined_witness:
  "[''machine'', ''learning''] \<noteq> [] \<and>
   buildDocumentQuery (Some [(''$and'', VList [VMap [(''$contains'', VStr ''machine'')],
                                               VMap [(''$contains'', VStr ''learning'')]])]) =
     Some [(''query_string'',
            VMap [(''fields'', VStrs [''document'']), (''query'', VStr ''machine learning'')])] \<and>
   buildDocumentQuery (Some [(''$or'', VList [VMap [(''$contains'', VStr ''machine'')],
                                              VMap [(''$contains'', VStr ''learning'')]])]) =
     Some [(''query_string'',
            VMap [(''fields'', VStrs [''document'']), (''query'', VStr ''machine OR learning'')])]"
  using contains_terms_are_joined[of "[''machine'', ''learning'']"]
  by simp


lemma rangeObjectsFor_append [simp]:
  "rangeObjectsFor g (xs @ ys) = rangeObjectsFor g xs @ rangeObjectsFor g ys"
  by (simp add: rangeObjectsFor_def)

lemma rangeObjectsFor_Nil [simp]: "rangeObjectsFor g [] = []"
  by (simp add: rangeObjectsFor_def)

lemma rangeObjectsFor_bool [simp]: "rangeObjectsFor g [[(''bool'', b)]] = []"
  by (simp add: rangeObjectsFor_def)

lemma rangeObjectsFor_term [simp]: "rangeObjectsFor g [[(''term'', b)]] = []"
  by (simp add: rangeObjectsFor_def)

lemma rangeObjectsFor_range [simp]:
  "rangeObjectsFor g [[(''range'', VMap [(f, b)])]] = (if g = f then [[(''range'', VMap [(f, b)])]] else [])"
  by (auto simp: rangeObjectsFor_def)

lemma applyOp_rangeObjects:
  "applyOp fieldName (result, rc, tv) e = (result', rc', tv') \<Longrightarrow>
   rangeObjectsFor g result' = rangeObjectsFor g result"
  by (cases e) (auto split: if_splits gval.splits simp: Let_def)

lemma foldl_applyOp_rangeObjects:
  "foldl (applyOp fieldName) (result, rc, tv) ops = (result', rc', tv') \<Longrightarrow>
   rangeObjectsFor g result' = rangeObjectsFor g result"
proof (induction ops arbitrary: result rc tv)
  case Nil
  then show ?case by simp
next
  case (Cons e ops)
  obtain r1 rc1 tv1 where s: "applyOp fieldName (result, rc, tv) e = (r1, rc1, tv1)"
    by (cases "applyOp fieldName (result, rc, tv) e") auto
  from Cons.prems s have "foldl (applyOp fieldName) (r1, rc1, tv1) ops = (result', rc', tv')"
    by simp
  from Cons.IH[OF this] applyOp_rangeObjects[OF s] show ?case by simp
qed

lemma applyOp_range_other:
  assumes "applyOp fieldName (result, rc, tv) (op, v) = (result', rc', tv')"
    and "(dk, k) \<in> {(''$lt'', ''lt''), (''$lte'', ''lte''), (''$gt'', ''gt''), (''$gte'', ''gte'')}"
  shows "map_of rc' k = (if op = dk then Some v else map_of rc k)"
  using assms by (auto split: if_splits gval.splits simp: Let_def update_conv')

lemma foldl_applyOp_bounds:
  assumes "foldl (applyOp fieldName) (result, rc, tv) ops = (result', rc', tv')"
    and "distinct (map fst ops)"
    and "(dk, k) \<in> {(''$lt'', ''lt''), (''$lte'', ''lte''), (''$gt'', ''gt''), (''$gte'', ''gte'')}"
  shows "map_of rc' k = (case map_of ops dk of Some v \<Rightarrow> Some v | None \<Rightarrow> map_of rc k)"
  using assms(1,2)
proof (induction ops arbitrary: result rc tv)
  case Nil
  then show ?case by simp
next
  case (Cons e ops)
  obtain op v where e: "e = (op, v)" by (cases e)
  obtain r1 rc1 tv1 where s: "applyOp fieldName (result, rc, tv) (op, v) = (r1, rc1, tv1)"
    by (cases "applyOp fieldName (result, rc, tv) (op, v)") auto
  from Cons.prems s e have f: "foldl (applyOp fieldName) (r1, rc1, tv1) ops = (result', rc', tv')"
    by simp
  from Cons.prems e have d: "distinct (map fst ops)" and notin: "op \<notin> fst ` set ops" by auto
  have step: "map_of rc1 k = (if op = dk then Some v else map_of rc k)"
    by (rule applyOp_range_other[OF s assms(3)])
  have ih: "map_of rc' k = (case map_of ops dk of Some v \<Rightarrow> Some v | None \<Rightarrow> map_of rc1 k)"
    by (rule Cons.IH[OF f d])
  show ?case
  proof (cases "op = dk")
    case True
    with notin have "map_of ops dk = None" by (simp add: map_of_eq_None_iff)
    with ih step True e show ?thesis by simp
  next
    case False
    with ih step e show ?thesis by (simp split: option.splits)
  qed
qed

lemma valueMapConditions_range:
  assumes "distinct (map fst ops)"
    and "map_of ops ''$lt'' \<noteq> None \<or> map_of ops ''$lte'' \<noteq> None \<or>
         map_of ops ''$gt'' \<noteq> None \<or> map_of ops ''$gte'' \<noteq> None"
  shows "\<exists>rangeConditions.
           rangeObjectsFor g (valueMapConditions fieldName result ops) =
             rangeObjectsFor g result @
             (if g = fieldName then [[(''range'', VMap [(fieldName, VMap rangeConditions)])]] else []) \<and>
           map_of rangeConditions ''lt'' = map_of ops ''$lt'' \<and>
           map_of rangeConditions ''lte'' = map_of ops ''$lte'' \<and>
           map_of rangeConditions ''gt'' = map_of ops ''$gt'' \<and>
           map_of rangeConditions ''gte'' = map_of ops ''$gte''"
proof -
  obtain result' rc' tv' where f: "foldl (applyOp fieldName) (result, [], VNil) ops = (result', rc', tv')"
    by (cases "foldl (applyOp fieldName) (result, [], VNil) ops") auto
  have b: "map_of rc' k = map_of ops dk"
    if "(dk, k) \<in> {(''$lt'', ''lt''), (''$lte'', ''lte''), (''$gt'', ''gt''), (''$gte'', ''gte'')}" for dk k
    using foldl_applyOp_bounds[OF f assms(1) that] by (simp split: option.splits)
  have b4: "map_of rc' ''lt'' = map_of ops ''$lt''" "map_of rc' ''lte'' = map_of ops ''$lte''"
    "map_of rc' ''gt'' = map_of ops ''$gt''" "map_of rc' ''gte'' = map_of ops ''$gte''"
    by (rule b, simp)+
  from assms(2) b4 have ne: "rc' \<noteq> []" by auto
  have r: "rangeObjectsFor g result' = rangeObjectsFor g result"
    by (rule foldl_applyOp_rangeObjects[OF f])
  have "rangeObjectsFor g (valueMapConditions fieldName result ops) =
        rangeObjectsFor g result @
        (if g = fieldName then [[(''range'', VMap [(fieldName, VMap rc')])]] else [])"
    using f ne r by (simp add: valueMapConditions_def)
  with b4 show ?thesis by blast
qed

lemma valueMapConditions_other:
  "g \<noteq> fieldName \<Longrightarrow>
   rangeObjectsFor g (valueMapConditions fieldName result ops) = rangeObjectsFor g result"
proof -
  assume g: "g \<noteq> fieldName"
  obtain result' rc' tv' where f: "foldl (applyOp fieldName) (result, [], VNil) ops = (result', rc', tv')"
    by (cases "foldl (applyOp fieldName) (result, [], VNil) ops") auto
  show ?thesis
    using f g foldl_applyOp_rangeObjects[OF f, of g] by (simp add: valueMapConditions_def)
qed

lemma fieldNameOf_inj: "fieldNameOf a = fieldNameOf b \<longleftrightarrow> a = b"
  by (simp add: fieldNameOf_def)

lemma fieldCondition_other:
  "k \<noteq> key \<Longrightarrow>
   rangeObjectsFor (fieldNameOf key) (fieldCondition result (k, v)) =
   rangeObjectsFor (fieldNameOf key) result"
  by (auto simp: Let_def fieldNameOf_inj valueMapConditions_other split: gval.splits)

lemma foldl_fieldCondition_other:
  "key \<notin> fst ` set es \<Longrightarrow>
   rangeObjectsFor (fieldNameOf key) (foldl fieldCondition result es) =
   rangeObjectsFor (fieldNameOf key) result"
proof (induction es arbitrary: result)
  case Nil
  then show ?case by simp
next
  case (Cons e es)
  obtain k v where e: "e = (k, v)" by (cases e)
  with Cons.prems have "k \<noteq> key" "key \<notin> fst ` set es" by auto
  with Cons.IH[of "fieldCondition result (k, v)"] fieldCondition_other[of k key result v] e
  show ?case by simp
qed


lemma fieldCondition_range:
  assumes "key \<noteq> ''$and''" "key \<noteq> ''$or''" "key \<noteq> ''$not''"
    and "v = VMap ops \<or> v = VFilter ops"
    and "distinct (map fst ops)"
    and "map_of ops ''$lt'' \<noteq> None \<or> map_of ops ''$lte'' \<noteq> None \<or>
         map_of ops ''$gt'' \<noteq> None \<or> map_of ops ''$gte'' \<noteq> None"
  shows "\<exists>rangeConditions.
           rangeObjectsFor (fieldNameOf key) (fieldCondition result (key, v)) =
             rangeObjectsFor (fieldNameOf key) result @
             [[(''range'', VMap [(fieldNameOf key, VMap rangeConditions)])]] \<and>
           map_of rangeConditions ''lt'' = map_of ops ''$lt'' \<and>
           map_of rangeConditions ''lte'' = map_of ops ''$lte'' \<and>
           map_of rangeConditions ''gt'' = map_of ops ''$gt'' \<and>
           map_of rangeConditions ''gte'' = map_of ops ''$gte''"
proof -
  have "fieldCondition result (key, v) = valueMapConditions (fieldNameOf key) result ops"
    using assms(1-4) by (auto simp: Let_def)
  then show ?thesis
    using valueMapConditions_range[OF assms(5,6), of "fieldNameOf key" "fieldNameOf key" result]
    by simp
qed

text \<open>
  C4, as stated: for every filter that places range conditions on the same field, exactly one
  \<^verbatim>\<open>range\<close> object is emitted for that field, so that no two \<^verbatim>\<open>range\<close> nodes for one field
  appear in the output. A filter that gives the two bounds of \<^verbatim>\<open>page\<close> in two sub-filters of
  \<^verbatim>\<open>$and\<close> compiles to two \<^verbatim>\<open>range\<close> objects for \<^verbatim>\<open>page\<close>.
\<close>

theorem separate_range_conditions_counterexample:
  "buildMetadataFilterConditions
     [(''$and'', VList [VMap [(''page'', VMap [(''$gte'', VInt 1)])],
                        VMap [(''page'', VMap [(''$lte'', VInt 5)])]])] =
   [[(''bool'', VMap [(''must'', VMaps
       [[(''range'', VMap [(fieldNameOf ''page'', VMap [(''gte'', VInt 1)])])],
        [(''range'', VMap [(fieldNameOf ''page'', VMap [(''lte'', VInt 5)])])]])])]]"
  by (simp add: buildMetadataFilterConditions.simps valueMapConditions_def)

text \<open>
  C4, amended: for every filter without a logical operator at its top level, and every field
  of it whose value is one operator map (a \<^verbatim>\<open>map[string]interface{}\<close> or a \<^verbatim>\<open>Filter\<close>) with at
  least one of \<^verbatim>\<open>$gt\<close>, \<^verbatim>\<open>$gte\<close>, \<^verbatim>\<open>$lt\<close>, \<^verbatim>\<open>$lte\<close>, the descriptor compiler emits exactly
  one \<^verbatim>\<open>range\<close> object for that field, and the object carries all the bounds given in the map
  (with both \<^verbatim>\<open>$gte\<close> and \<^verbatim>\<open>$lte\<close> present it holds both). Folding is per operator map.
\<close>

theorem one_range_object_per_operator_map:
  assumes "distinct (map fst condition)"
    and "map_of condition ''$and'' = None"
    and "map_of condition ''$or'' = None"
    and "map_of condition ''$not'' = None"
    and "map_of condition key = Some v"
    and "v = VMap ops \<or> v = VFilter ops"
    and "distinct (map fst ops)"
    and "map_of ops ''$lt'' \<noteq> None \<or> map_of ops ''$lte'' \<noteq> None \<or>
         map_of ops ''$gt'' \<noteq> None \<or> map_of ops ''$gte'' \<noteq> None"
  shows "\<exists>rangeConditions.
           rangeObjectsFor (fieldNameOf key) (buildMetadataFilterConditions condition) =
             [[(''range'', VMap [(fieldNameOf key, VMap rangeConditions)])]] \<and>
           map_of rangeConditions ''lt'' = map_of ops ''$lt'' \<and>
           map_of rangeConditions ''lte'' = map_of ops ''$lte'' \<and>
           map_of rangeConditions ''gt'' = map_of ops ''$gt'' \<and>
           map_of rangeConditions ''gte'' = map_of ops ''$gte''"
proof -
  from assms(5) have mem: "(key, v) \<in> set condition" by (rule map_of_SomeD)
  then obtain pre post where sp: "condition = pre @ (key, v) # post"
    by (auto simp: in_set_conv_decomp)
  with assms(1) have npre: "key \<notin> fst ` set pre" and npost: "key \<notin> fst ` set post"
    by auto
  from assms(2-5) have k: "key \<noteq> ''$and''" "key \<noteq> ''$or''" "key \<noteq> ''$not''"
    by auto
  from sp have ne: "condition \<noteq> []" by simp
  have b: "buildMetadataFilterConditions condition = foldl fieldCondition [] condition"
    by (rule buildMetadataFilterConditions_fields[OF ne assms(2-4)])
  define r1 where "r1 = foldl fieldCondition [] pre"
  have p1: "rangeObjectsFor (fieldNameOf key) r1 = []"
    unfolding r1_def using foldl_fieldCondition_other[OF npre, of "[]"] by simp
  from fieldCondition_range[OF k assms(6-8), of r1] obtain rangeConditions where
    p2: "rangeObjectsFor (fieldNameOf key) (fieldCondition r1 (key, v)) =
           rangeObjectsFor (fieldNameOf key) r1 @
           [[(''range'', VMap [(fieldNameOf key, VMap rangeConditions)])]]"
    and bounds: "map_of rangeConditions ''lt'' = map_of ops ''$lt''"
      "map_of rangeConditions ''lte'' = map_of ops ''$lte''"
      "map_of rangeConditions ''gt'' = map_of ops ''$gt''"
      "map_of rangeConditions ''gte'' = map_of ops ''$gte''"
    by blast
  have p3: "rangeObjectsFor (fieldNameOf key) (foldl fieldCondition (fieldCondition r1 (key, v)) post) =
            rangeObjectsFor (fieldNameOf key) (fieldCondition r1 (key, v))"
    by (rule foldl_fieldCondition_other[OF npost])
  have "rangeObjectsFor (fieldNameOf key) (buildMetadataFilterConditions condition) =
        [[(''range'', VMap [(fieldNameOf key, VMap rangeConditions)])]]"
    using b sp p1 p2 p3 by (simp add: r1_def)
  with bounds show ?thesis by blast
qed

theorem one_range_object_per_operator_map_witness:
  "distinct (map fst [(''category'', VStr ''AI''), (''page'', VFilter [(''$gte'', VInt 1), (''$lte'', VInt 5)])]) \<and>
   map_of [(''category'', VStr ''AI''), (''page'', VFilter [(''$gte'', VInt 1), (''$lte'', VInt 5)])] ''page'' =
     Some (VFilter [(''$gte'', VInt 1), (''$lte'', VInt 5)]) \<and>
   distinct (map fst [(''$gte'', VInt 1), (''$lte'', VInt 5)]) \<and>
   map_of [(''$gte'', VInt 1), (''$lte'', VInt 5)] ''$gte'' \<noteq> None \<and>
   buildMetadataFilterConditions
     [(''category'', VStr ''AI''), (''page'', VFilter [(''$gte'', VInt 1), (''$lte'', VInt 5)])] =
     [[(''term'', VMap [(fieldNameOf ''category'', VStr ''AI'')])],
      [(''range'', VMap [(fieldNameOf ''page'', VMap [(''gte'', VInt 1), (''lte'', VInt 5)])])]] \<and>
   rangeObjectsFor (fieldNameOf ''page'')
     [[(''term'', VMap [(fieldNameOf ''category'', VStr ''AI'')])],
      [(''range'', VMap [(fieldNameOf ''page'', VMap [(''gte'', VInt 1), (''lte'', VInt 5)])])]] =
     [[(''range'', VMap [(fieldNameOf ''page'', VMap [(''gte'', VInt 1), (''lte'', VInt 5)])])]]"
  using one_range_object_per_operator_map
    [of "[(''category'', VStr ''AI''), (''page'', VFilter [(''$gte'', VInt 1), (''$lte'', VInt 5)])]"
        "''page''" "VFilter [(''$gte'', VInt 1), (''$lte'', VInt 5)]"
        "[(''$gte'', VInt 1), (''$lte'', VInt 5)]"]
  by (simp add: buildMetadataFilterConditions.simps valueMapConditions_def rangeObjectsFor_def)

end
